theory Spec2Isabelle
  imports Main "HOL-Library.Multiset"
begin

section \<open>The resume-analysis client: data model\<close>

text \<open>
  The repository holds two variants of one React component \<open>App\<close>:
  \<open>src/frontend/src/App.jsx\<close> and \<open>src/unnamed/part_000\<close>. Both keep their state in
  \<open>useState\<close> cells and change it only inside event handlers. The embedding makes the
  cells the fields of a record and every handler a function from state to state.
  Definitions of \<open>App.jsx\<close> carry the source's names; those of \<open>part_000\<close> carry the
  suffix \<open>_p0\<close>.

  JavaScript strings are modelled by \<open>string\<close>. A browser \<open>File\<close> is represented by
  the three properties the component reads.
\<close>

record File =
  name :: string
  size_f :: nat
  type_f :: string

text \<open>
  A row of the service's answer. \<open>App.jsx\<close> renders \<open>pain_points\<close> as three named
  buckets, \<open>part_000\<close> as one flat list; no handler reads them.
\<close>

datatype pain_points =
  Categorized (critical: "string list") (major: "string list") (minor: "string list")
  | Flat "string list"

record candidate =
  candidate_name :: string
  score :: int
  pain_points :: pain_points
  summary :: string
  status :: string
  resume_name :: string

text \<open>
  A \<open>FormData\<close> object is the ordered list of its parts; \<open>append\<close> turns every value
  that is not a file into a string.
\<close>

datatype form_value = FilePart File | TextPart string

type_synonym formData = "(string \<times> form_value) list"

text \<open>
  The body of a 2xx answer, as \<open>response.data\<close> holds it: the array of rows the
  service's contract promises, or any other value (an object, a string, a number,
  \<open>null\<close>), kept as its text. The cell \<open>results\<close> starts as the empty array and is
  assigned such a body unchecked, so it has this type.
\<close>

datatype body = Rows "candidate list" | NotArray string

text \<open>
  The rows the results table shows for a cell. The markup renders the table and its
  buttons only when \<open>results.length > 0\<close> and by \<open>results.map\<close>; a value that is not
  an array has no \<open>map\<close>, so it shows no row (where its \<open>length\<close> is positive the
  render fails altogether).
\<close>

definition rows_of :: "body \<Rightarrow> candidate list" where
  "rows_of b = (case b of Rows rows \<Rightarrow> rows | NotArray text \<Rightarrow> [])"

text \<open>
  The state cells of \<open>App.jsx\<close>, in declaration order. The last field is not a cell of
  the component: it is the network, the list of requests posted to \<open>/analyze\<close> that
  have not been answered yet.
\<close>

record app =
  resumes :: "File list"
  jobDescription :: string
  results :: body
  analyzing :: bool
  error :: "string option"
  visibleContent :: "string \<rightharpoonup> bool"
  analyzeClicked :: bool
  isDragOver :: bool
  outbox :: "formData list"

text \<open>
  \<open>part_000\<close> has one more cell, \<open>requiredExperience\<close>. It holds the number 0 at
  first and the value string of the chosen option afterwards; \<open>FormData.append\<close> writes
  both as the same decimal digits, so the cell is modelled by the number.
\<close>

record app_p0 = app +
  requiredExperience :: nat

definition init :: app where
  "init = \<lparr> resumes = [], jobDescription = [], results = Rows [], analyzing = False,
            error = None, visibleContent = Map.empty, analyzeClicked = False,
            isDragOver = False, outbox = [] \<rparr>"

definition init_p0 :: app_p0 where
  "init_p0 = \<lparr> resumes = [], jobDescription = [], results = Rows [], analyzing = False,
               error = None, visibleContent = Map.empty, analyzeClicked = False,
               isDragOver = False, outbox = [], requiredExperience = 0 \<rparr>"

subsection \<open>JavaScript primitives used by the handlers\<close>

text \<open>
  \<open>String.prototype.trim\<close> removes white space and line terminators from both ends.
  Of the code points ECMAScript lists, those that fit a \<open>char\<close> are TAB, LF, VT, FF, CR,
  SPACE and NBSP.
\<close>

definition is_ws :: "char \<Rightarrow> bool" where
  "is_ws c = (of_char c \<in> set [9, 10, 11, 12, 13, 32, 160 :: nat])"

definition trim :: "string \<Rightarrow> string" where
  "trim s = rev (dropWhile is_ws (rev (dropWhile is_ws s)))"

text \<open>The value of a template literal \<open>${index}\<close>: the decimal digits of the index.\<close>

fun decimal :: "nat \<Rightarrow> string" where
  "decimal n = (if n < 10 then [''0123456789'' ! n]
                else decimal (n div 10) @ [''0123456789'' ! (n mod 10)])"

declare decimal.simps [simp del]

definition pain_points_key :: "nat \<Rightarrow> string" where
  "pain_points_key index = ''pain-points-'' @ decimal index"

definition summary_key :: "nat \<Rightarrow> string" where
  "summary_key index = ''summary-'' @ decimal index"

text \<open>
  Reading a property of the visibility object in a boolean position: an absent key reads
  \<open>undefined\<close>, which is falsy.
\<close>

definition truthy :: "bool option \<Rightarrow> bool" where
  "truthy v = (case v of None \<Rightarrow> False | Some b \<Rightarrow> b)"

text \<open>The operator \<open>a || b\<close> on booleans: \<open>a\<close> when \<open>a\<close> is truthy, else \<open>b\<close>.\<close>

definition or_else :: "bool \<Rightarrow> bool \<Rightarrow> bool" where
  "or_else a b = (if a then a else b)"

text \<open>
  \<open>Array.prototype.sort\<close> with a comparator: the result is ordered by the comparator and
  the sort is stable (ECMAScript 2019). \<open>comparefn a b > 0\<close> places \<open>a\<close> after \<open>b\<close>.
  Insertion from the right end realises exactly this contract.
\<close>

fun insert_by :: "('a \<Rightarrow> 'a \<Rightarrow> int) \<Rightarrow> 'a \<Rightarrow> 'a list \<Rightarrow> 'a list" where
  "insert_by comparefn x [] = [x]"
| "insert_by comparefn x (y # ys) =
     (if comparefn x y > 0 then y # insert_by comparefn x ys else x # y # ys)"

definition array_sort :: "('a \<Rightarrow> 'a \<Rightarrow> int) \<Rightarrow> 'a list \<Rightarrow> 'a list" where
  "array_sort comparefn xs = foldr (insert_by comparefn) xs []"

section \<open>The handlers of App.jsx\<close>

text \<open>
  \<open>handleFileChange\<close> receives the files of the input element. The filter reads the
  \<open>resumes\<close> of the last render, the updater appends to the current cell; handlers run
  one after the other with a render in between, so both are the state's \<open>resumes\<close>.
\<close>

definition handleFileChange :: "File list \<Rightarrow> app \<Rightarrow> app" where
  "handleFileChange newFiles s =
     (let uniqueNewFiles =
            filter (\<lambda>newFile. \<not> list_ex (\<lambda>existingFile. name existingFile = name newFile)
                                   (resumes s)) newFiles
      in s\<lparr>resumes := resumes s @ uniqueNewFiles\<rparr>)"

definition handleDragOver :: "'a app_scheme \<Rightarrow> 'a app_scheme" where
  "handleDragOver s = s\<lparr>isDragOver := True\<rparr>"

definition handleDragLeave :: "'a app_scheme \<Rightarrow> 'a app_scheme" where
  "handleDragLeave s = s\<lparr>isDragOver := False\<rparr>"

definition valid_type :: "File \<Rightarrow> bool" where
  "valid_type f =
     (type_f f = ''application/pdf'' \<or>
      type_f f = ''application/vnd.openxmlformats-officedocument.wordprocessingml.document'')"

definition handleDrop :: "File list \<Rightarrow> app \<Rightarrow> app" where
  "handleDrop droppedFiles s =
     (let validFiles = filter valid_type droppedFiles;
          uniqueValidFiles =
            filter (\<lambda>newFile. \<not> list_ex (\<lambda>existingFile. name existingFile = name newFile)
                                   (resumes s)) validFiles
      in s\<lparr>isDragOver := False, resumes := resumes s @ uniqueValidFiles\<rparr>)"

definition removeFile :: "string \<Rightarrow> app \<Rightarrow> app" where
  "removeFile fileName s = s\<lparr>resumes := filter (\<lambda>f. name f \<noteq> fileName) (resumes s)\<rparr>"

text \<open>The multipart body \<open>handleAnalyze\<close> builds: one part per file, then the description.\<close>

definition formData_of :: "app \<Rightarrow> formData" where
  "formData_of s =
     map (\<lambda>f. (''resumes'', FilePart f)) (resumes s)
       @ [(''job_description'', TextPart (jobDescription s))]"

definition msg_no_resumes :: string where
  "msg_no_resumes = ''Please upload at least one resume file.''"

definition msg_no_job_description :: string where
  "msg_no_job_description = ''Please provide a job description.''"

definition msg_analysis_failed :: string where
  "msg_analysis_failed = ''An error occurred during analysis. Please try again.''"

text \<open>
  \<open>handleAnalyze\<close> is an \<open>async\<close> function with one \<open>await\<close>. The function below is its
  synchronous part, from the call to the point where \<open>axios.post\<close> has been issued:
  validation, the reset of the result cells, the request.
\<close>

definition handleAnalyze :: "app \<Rightarrow> app" where
  "handleAnalyze s0 =
     (let s = s0\<lparr>analyzeClicked := True\<rparr> in
      if length (resumes s) = 0 \<or> trim (jobDescription s) = [] then
        (if length (resumes s) = 0 then s\<lparr>error := Some msg_no_resumes\<rparr>
         else if trim (jobDescription s) = [] then s\<lparr>error := Some msg_no_job_description\<rparr>
         else s)
      else s\<lparr>error := None, analyzing := True, results := Rows [],
             visibleContent := Map.empty, outbox := outbox s @ [formData_of s]\<rparr>)"

text \<open>
  The rest of \<open>handleAnalyze\<close> runs when the request settles. The promise resolves with
  the body of a 2xx answer or rejects (network error, timeout, status outside 2xx).
  There are two ways into \<open>catch\<close>: the rejection, and the \<open>forEach\<close> of a body that
  is not an array, which raises after \<open>setResults\<close> has stored that body. \<open>finally\<close>
  runs in every case.
\<close>

datatype response = Resolved body | Rejected

definition initialVisibility :: "candidate list \<Rightarrow> (string \<rightharpoonup> bool)" where
  "initialVisibility rows =
     foldl (\<lambda>m index. m(pain_points_key index \<mapsto> False, summary_key index \<mapsto> False))
           Map.empty [0 ..< length rows]"

definition handleAnalyze_settled :: "response \<Rightarrow> 'a app_scheme \<Rightarrow> 'a app_scheme" where
  "handleAnalyze_settled r s =
     (case r of
        Resolved data \<Rightarrow>
          (let s1 = s\<lparr>results := data\<rparr> in
           case data of
             Rows rows \<Rightarrow>
               s1\<lparr>visibleContent := initialVisibility rows, analyzing := False\<rparr>
           | NotArray text \<Rightarrow>
               s1\<lparr>error := Some msg_analysis_failed, analyzing := False\<rparr>)
      | Rejected \<Rightarrow> s\<lparr>error := Some msg_analysis_failed, analyzing := False\<rparr>)"

definition toggleContent :: "string \<Rightarrow> app \<Rightarrow> app" where
  "toggleContent ident s =
     s\<lparr>visibleContent :=
          (visibleContent s)(ident \<mapsto> or_else (\<not> truthy (visibleContent s ident)) False)\<rparr>"

text \<open>
  \<open>sortByScore\<close> sorts a copy of the rows with the comparator \<open>b.score - a.score\<close> and
  rebuilds the visibility object over the indices of the sorted rows, reading each key
  from the \<open>visibleContent\<close> of the render the click happened on. Its button is
  rendered only for an array with at least one row, so the handler never runs on a cell
  that is not an array; there the model returns the state as it is.
\<close>

definition sortByScore :: "app \<Rightarrow> app" where
  "sortByScore s =
     (case results s of
        Rows prevResults \<Rightarrow>
          (let sortedResults = array_sort (\<lambda>a b. score b - score a) prevResults;
               newVisibleContent =
                 foldl (\<lambda>m index.
                          m(pain_points_key index \<mapsto>
                              or_else (truthy (visibleContent s (pain_points_key index))) False,
                            summary_key index \<mapsto>
                              or_else (truthy (visibleContent s (summary_key index))) False))
                       Map.empty [0 ..< length sortedResults]
           in s\<lparr>visibleContent := newVisibleContent, results := Rows sortedResults\<rparr>)
      | NotArray text \<Rightarrow> s)"

section \<open>The handlers of part_000\<close>

text \<open>
  \<open>handleDragOver\<close>, \<open>handleDragLeave\<close> and the settling of the request are the same
  text in both files and are shared. The other handlers differ and follow.
\<close>

definition handleFileChange_p0 :: "File list \<Rightarrow> app_p0 \<Rightarrow> app_p0" where
  "handleFileChange_p0 files s = s\<lparr>resumes := files\<rparr>"

definition handleDrop_p0 :: "File list \<Rightarrow> app_p0 \<Rightarrow> app_p0" where
  "handleDrop_p0 droppedFiles s =
     (let validFiles = filter valid_type droppedFiles
      in s\<lparr>isDragOver := False, resumes := resumes s @ validFiles\<rparr>)"

definition formData_of_p0 :: "app_p0 \<Rightarrow> formData" where
  "formData_of_p0 s =
     map (\<lambda>f. (''resumes'', FilePart f)) (resumes s)
       @ [(''job_description'', TextPart (jobDescription s))]
       @ [(''required_experience'', TextPart (decimal (requiredExperience s)))]"

definition handleAnalyze_p0 :: "app_p0 \<Rightarrow> app_p0" where
  "handleAnalyze_p0 s0 =
     (let s = s0\<lparr>analyzeClicked := True\<rparr> in
      if length (resumes s) = 0 \<or> trim (jobDescription s) = [] then
        (if length (resumes s) = 0 then s\<lparr>error := Some msg_no_resumes\<rparr>
         else if trim (jobDescription s) = [] then s\<lparr>error := Some msg_no_job_description\<rparr>
         else s)
      else s\<lparr>error := None, analyzing := True, outbox := outbox s @ [formData_of_p0 s]\<rparr>)"

definition toggleContent_p0 :: "string \<Rightarrow> app_p0 \<Rightarrow> app_p0" where
  "toggleContent_p0 ident s =
     s\<lparr>visibleContent := (visibleContent s)(ident \<mapsto> \<not> truthy (visibleContent s ident))\<rparr>"

text \<open>
  The experience selector renders one option per index of an array of length 21, with
  the index as value; choosing an option stores its value.
\<close>

definition experience_options :: "nat list" where
  "experience_options = [0 ..< 21]"

definition setRequiredExperience :: "nat \<Rightarrow> app_p0 \<Rightarrow> app_p0" where
  "setRequiredExperience v s = s\<lparr>requiredExperience := v\<rparr>"

section \<open>The component as a state machine\<close>

text \<open>
  What the user and the network can do to the rendered component. The markup decides
  which handler an event reaches:
  \<^item> the analyze button carries \<open>disabled={analyzing}\<close>, and a disabled button delivers
    no click;
  \<^item> the two view buttons exist once per rendered row, so only for an index below
    the number of rows shown, and call \<open>toggleContent\<close> with that row's key;
  \<^item> the sort button is rendered only together with the table, when rows are shown;
  \<^item> a request can settle only if one is outstanding;
  \<^item> the selector of part_000 offers only its options.
  An event the markup does not deliver leaves the state as it is.
\<close>

datatype event =
  FileChange "File list" | DragOver | DragLeave | Drop "File list" | ClickRemove string
  | TypeDescription string | ClickAnalyze | Settle response
  | ClickPainPoints nat | ClickSummary nat | ClickSort

fun step :: "event \<Rightarrow> app \<Rightarrow> app" where
  "step (FileChange files) s = handleFileChange files s"
| "step DragOver s = handleDragOver s"
| "step DragLeave s = handleDragLeave s"
| "step (Drop files) s = handleDrop files s"
| "step (ClickRemove fileName) s = removeFile fileName s"
| "step (TypeDescription v) s = s\<lparr>jobDescription := v\<rparr>"
| "step ClickAnalyze s = (if analyzing s then s else handleAnalyze s)"
| "step (Settle r) s =
     (case outbox s of [] \<Rightarrow> s
      | request # rest \<Rightarrow> handleAnalyze_settled r (s\<lparr>outbox := rest\<rparr>))"
| "step (ClickPainPoints index) s =
     (if index < length (rows_of (results s)) then toggleContent (pain_points_key index) s else s)"
| "step (ClickSummary index) s =
     (if index < length (rows_of (results s)) then toggleContent (summary_key index) s else s)"
| "step ClickSort s = (if length (rows_of (results s)) > 0 then sortByScore s else s)"

definition run :: "event list \<Rightarrow> app \<Rightarrow> app" where
  "run es s = fold step es s"

datatype event_p0 =
  FileChange_p0 "File list" | DragOver_p0 | DragLeave_p0 | Drop_p0 "File list"
  | SelectExperience_p0 nat | TypeDescription_p0 string | ClickAnalyze_p0
  | Settle_p0 response | ClickPainPoints_p0 nat | ClickSummary_p0 nat

fun step_p0 :: "event_p0 \<Rightarrow> app_p0 \<Rightarrow> app_p0" where
  "step_p0 (FileChange_p0 files) s = handleFileChange_p0 files s"
| "step_p0 DragOver_p0 s = handleDragOver s"
| "step_p0 DragLeave_p0 s = handleDragLeave s"
| "step_p0 (Drop_p0 files) s = handleDrop_p0 files s"
| "step_p0 (SelectExperience_p0 v) s =
     (if v \<in> set experience_options then setRequiredExperience v s else s)"
| "step_p0 (TypeDescription_p0 v) s = s\<lparr>jobDescription := v\<rparr>"
| "step_p0 ClickAnalyze_p0 s = (if analyzing s then s else handleAnalyze_p0 s)"
| "step_p0 (Settle_p0 r) s =
     (case outbox s of [] \<Rightarrow> s
      | request # rest \<Rightarrow> handleAnalyze_settled r (s\<lparr>outbox := rest\<rparr>))"
| "step_p0 (ClickPainPoints_p0 index) s =
     (if index < length (rows_of (results s)) then toggleContent_p0 (pain_points_key index) s else s)"
| "step_p0 (ClickSummary_p0 index) s =
     (if index < length (rows_of (results s)) then toggleContent_p0 (summary_key index) s else s)"

definition run_p0 :: "event_p0 list \<Rightarrow> app_p0 \<Rightarrow> app_p0" where
  "run_p0 es s = fold step_p0 es s"

section \<open>Auxiliary notions and sample data\<close>

text \<open>
  An event adds a batch of files; the batch is the selection of a file input, or the
  type-valid files of a drop. \<open>batch_distinct\<close> says that no two files of the batch
  share a name.
\<close>

fun batch_distinct :: "event \<Rightarrow> bool" where
  "batch_distinct (FileChange files) = distinct (map name files)"
| "batch_distinct (Drop files) = distinct (map name (filter valid_type files))"
| "batch_distinct e = True"

text \<open>The values a multipart body carries under the field \<open>required_experience\<close>.\<close>

definition experience_parts :: "formData \<Rightarrow> form_value list" where
  "experience_parts fd = map snd (filter (\<lambda>part. fst part = ''required_experience'') fd)"

definition resumeA :: File where
  "resumeA = \<lparr> name = ''resumeA.pdf'', size_f = 10240, type_f = ''application/pdf'' \<rparr>"

definition resumeB :: File where
  "resumeB = \<lparr> name = ''resumeB.docx'', size_f = 2048,
      type_f = ''application/vnd.openxmlformats-officedocument.wordprocessingml.document'' \<rparr>"

definition notes_txt :: File where
  "notes_txt = \<lparr> name = ''notes.txt'', size_f = 12, type_f = ''text/plain'' \<rparr>"

definition candidateA :: candidate where
  "candidateA = \<lparr> candidate_name = ''A'', score = 65, pain_points = Categorized [] [] [],
      summary = ''summary of A'', status = ''Under Consideration'',
      resume_name = ''resumeA.pdf'' \<rparr>"

definition candidateB :: candidate where
  "candidateB = \<lparr> candidate_name = ''B'', score = 90, pain_points = Categorized [] [] [],
      summary = ''summary of B'', status = ''Shortlisted'',
      resume_name = ''resumeB.docx'' \<rparr>"

definition candidateC :: candidate where
  "candidateC = \<lparr> candidate_name = ''C'', score = 65, pain_points = Categorized [] [] [],
      summary = ''summary of C'', status = ''Rejected'',
      resume_name = ''resumeC.pdf'' \<rparr>"

text \<open>
  Two sample runs of each variant. In \<open>analysed\<close> two files and a description were
  submitted and the service has answered with the rows A (65) and B (90); in
  \<open>in_flight\<close> one file and a description were submitted and the answer is outstanding.
\<close>

definition analysed :: app where
  "analysed = run [Drop [resumeA, resumeB], TypeDescription ''x'', ClickAnalyze,
                   Settle (Resolved (Rows [candidateA, candidateB]))] init"

definition analysed_p0 :: app_p0 where
  "analysed_p0 = run_p0 [Drop_p0 [resumeA, resumeB], TypeDescription_p0 ''x'',
                   ClickAnalyze_p0, Settle_p0 (Resolved (Rows [candidateA, candidateB]))]
                   init_p0"

definition in_flight :: app where
  "in_flight = run [Drop [resumeA], TypeDescription ''x'', ClickAnalyze] init"

definition in_flight_p0 :: app_p0 where
  "in_flight_p0 = run_p0 [Drop_p0 [resumeA], TypeDescription_p0 ''x'', ClickAnalyze_p0] init_p0"





text \<open>
  In \<open>chosen_p0\<close> a file and a description are in place and the selector was set to
  20; the value 21 tried afterwards is none of its options.
\<close>

definition chosen_p0 :: app_p0 where
  "chosen_p0 = run_p0 [Drop_p0 [resumeA], TypeDescription_p0 ''x'', SelectExperience_p0 20,
                       SelectExperience_p0 21] init_p0"

section \<open>Evaluation of the sample runs\<close>

lemmas handler_defs =
  handleFileChange_def handleDragOver_def handleDragLeave_def handleDrop_def removeFile_def
  handleAnalyze_def handleAnalyze_settled_def toggleContent_def sortByScore_def
  handleFileChange_p0_def handleDrop_p0_def handleAnalyze_p0_def toggleContent_p0_def
  setRequiredExperience_def

lemmas sample_defs =
  resumeA_def resumeB_def notes_txt_def candidateA_def candidateB_def candidateC_def

lemma analysed_eq:
  "analysed = \<lparr> resumes = [resumeA, resumeB], jobDescription = ''x'',
      results = Rows [candidateA, candidateB], analyzing = False, error = None,
      visibleContent = [''pain-points-0'' \<mapsto> False, ''summary-0'' \<mapsto> False,
                        ''pain-points-1'' \<mapsto> False, ''summary-1'' \<mapsto> False],
      analyzeClicked = True, isDragOver = False, outbox = [] \<rparr>"
  unfolding analysed_def
  by (simp add: run_def init_def handleDrop_def handleAnalyze_def handleAnalyze_settled_def
      valid_type_def trim_def is_ws_def Let_def initialVisibility_def pain_points_key_def
      summary_key_def decimal.simps resumeA_def resumeB_def upt_rec [of 0 2] upt_rec [of 1 2])

lemma analysed_p0_eq:
  "analysed_p0 = \<lparr> resumes = [resumeA, resumeB], jobDescription = ''x'',
      results = Rows [candidateA, candidateB], analyzing = False, error = None,
      visibleContent = [''pain-points-0'' \<mapsto> False, ''summary-0'' \<mapsto> False,
                        ''pain-points-1'' \<mapsto> False, ''summary-1'' \<mapsto> False],
      analyzeClicked = True, isDragOver = False, outbox = [], requiredExperience = 0 \<rparr>"
  unfolding analysed_p0_def
  by (simp add: run_p0_def init_p0_def handleDrop_p0_def handleAnalyze_p0_def
      handleAnalyze_settled_def valid_type_def trim_def is_ws_def Let_def
      initialVisibility_def pain_points_key_def summary_key_def decimal.simps
      resumeA_def resumeB_def upt_rec [of 0 2] upt_rec [of 1 2])

lemma in_flight_eq:
  "in_flight = \<lparr> resumes = [resumeA], jobDescription = ''x'', results = Rows [],
      analyzing = True, error = None, visibleContent = Map.empty, analyzeClicked = True,
      isDragOver = False,
      outbox = [[(''resumes'', FilePart resumeA), (''job_description'', TextPart ''x'')]] \<rparr>"
  unfolding in_flight_def
  by (simp add: run_def init_def handleDrop_def handleAnalyze_def formData_of_def
      valid_type_def trim_def is_ws_def Let_def resumeA_def)

lemma in_flight_p0_eq:
  "in_flight_p0 = \<lparr> resumes = [resumeA], jobDescription = ''x'', results = Rows [],
      analyzing = True, error = None, visibleContent = Map.empty, analyzeClicked = True,
      isDragOver = False,
      outbox = [[(''resumes'', FilePart resumeA), (''job_description'', TextPart ''x''),
                 (''required_experience'', TextPart ''0'')]],
      requiredExperience = 0 \<rparr>"
  unfolding in_flight_p0_def
  by (simp add: run_p0_def init_p0_def handleDrop_p0_def handleAnalyze_p0_def
      formData_of_p0_def valid_type_def trim_def is_ws_def Let_def decimal.simps resumeA_def)

section \<open>The file collection\<close>

lemma distinct_append_new:
  "distinct (map name xs) \<Longrightarrow> distinct (map name ys) \<Longrightarrow>
   distinct (map name (xs @ filter (\<lambda>newFile.
      \<not> list_ex (\<lambda>existingFile. name existingFile = name newFile) xs) ys))"
  by (auto simp: list_ex_iff distinct_map_filter)

lemma step_distinct_names:
  "distinct (map name (resumes s)) \<Longrightarrow> batch_distinct e \<Longrightarrow>
   distinct (map name (resumes (step e s)))"
proof (cases e)
  case (FileChange files)
  assume "distinct (map name (resumes s))" "batch_distinct e"
  with FileChange show ?thesis
    using distinct_append_new [of "resumes s" files]
    by (simp add: handleFileChange_def Let_def)
next
  case (Drop files)
  assume "distinct (map name (resumes s))" "batch_distinct e"
  with Drop show ?thesis
    using distinct_append_new [of "resumes s" "filter valid_type files"]
    by (simp add: handleDrop_def Let_def)
next
  case (ClickRemove n)
  assume "distinct (map name (resumes s))"
  with ClickRemove show ?thesis
    by (simp add: removeFile_def distinct_map_filter)
next
  case (Settle r)
  assume "distinct (map name (resumes s))"
  with Settle show ?thesis
    by (cases "outbox s"; cases r)
      (simp_all add: handleAnalyze_settled_def Let_def split: body.splits)
qed (auto simp: handleDragOver_def handleDragLeave_def handleAnalyze_def toggleContent_def
      sortByScore_def Let_def split: body.splits)

lemma run_distinct_names:
  "distinct (map name (resumes s)) \<Longrightarrow> list_all batch_distinct es \<Longrightarrow>
   distinct (map name (resumes (run es s)))"
proof (induction es arbitrary: s)
  case Nil
  then show ?case by (simp add: run_def)
next
  case (Cons e es)
  then have "distinct (map name (resumes (step e s)))"
    by (simp add: step_distinct_names)
  with Cons have "distinct (map name (resumes (run es (step e s))))" by simp
  then show ?case by (simp add: run_def)
qed

lemma filter_known_names:
  "list_all (\<lambda>f. name f \<in> set (map name xs)) ys \<Longrightarrow>
   filter (\<lambda>newFile. \<not> list_ex (\<lambda>existingFile. name existingFile = name newFile) xs) ys = []"
  by (induction ys) (auto simp: list_ex_iff)

text \<open>
  Claim C2, as the code has it. In \<open>App.jsx\<close>, as long as the files of each added batch
  (a file-input selection, or the type-valid files of a drop) have pairwise distinct
  names, no run of additions and removals puts two entries with equal name into the
  collection; and a batch whose names are all in the collection already leaves the
  collection unchanged. \<open>part_000\<close> has no such filter: its file input replaces the
  collection by the selection, its drop appends every type-valid file.
\<close>

theorem add_files_unique_names:
  "(distinct (map name (resumes s)) \<and> list_all batch_distinct es \<longrightarrow>
      distinct (map name (resumes (run es s)))) \<and>
   (list_all (\<lambda>f. name f \<in> set (map name (resumes t))) files \<longrightarrow>
      resumes (handleFileChange files t) = resumes t \<and>
      resumes (handleDrop files t) = resumes t) \<and>
   resumes (handleFileChange_p0 files' u) = files' \<and>
   resumes (handleDrop_p0 files' u) = resumes u @ filter valid_type files'"
proof -
  have a: "distinct (map name (resumes s)) \<and> list_all batch_distinct es \<longrightarrow>
      distinct (map name (resumes (run es s)))"
    by (simp add: run_distinct_names)
  have b: "list_all (\<lambda>f. name f \<in> set (map name (resumes t))) files \<longrightarrow>
      resumes (handleFileChange files t) = resumes t"
    by (simp add: handleFileChange_def Let_def filter_known_names)
  have c: "list_all (\<lambda>f. name f \<in> set (map name (resumes t))) files \<longrightarrow>
      resumes (handleDrop files t) = resumes t"
  proof
    assume "list_all (\<lambda>f. name f \<in> set (map name (resumes t))) files"
    then have "list_all (\<lambda>f. name f \<in> set (map name (resumes t)))
        (filter valid_type files)"
      by (simp add: list_all_iff)
    from filter_known_names [OF this] show "resumes (handleDrop files t) = resumes t"
      by (simp add: handleDrop_def Let_def)
  qed
  have d: "resumes (handleFileChange_p0 files' u) = files' \<and>
     resumes (handleDrop_p0 files' u) = resumes u @ filter valid_type files'"
    by (simp add: handleFileChange_p0_def handleDrop_p0_def)
  from a b c d show ?thesis by blast
qed

text \<open>
  Claim C2, an instance: a run of drops, selections and a removal from the empty
  collection, and the re-adding of \<open>resumeA.pdf\<close> to a collection that holds it.
\<close>

theorem add_files_unique_names_witness:
  "distinct (map name (resumes init)) \<and>
   list_all batch_distinct [Drop [resumeA, notes_txt], FileChange [resumeA, resumeB],
      ClickRemove ''resumeA.pdf'', Drop [resumeB, resumeA]] \<and>
   map name (resumes (run [Drop [resumeA, notes_txt], FileChange [resumeA, resumeB],
      ClickRemove ''resumeA.pdf'', Drop [resumeB, resumeA]] init)) =
     [''resumeB.docx'', ''resumeA.pdf''] \<and>
   distinct (map name (resumes (run [Drop [resumeA, notes_txt], FileChange [resumeA, resumeB],
      ClickRemove ''resumeA.pdf'', Drop [resumeB, resumeA]] init))) \<and>
   list_all (\<lambda>f. name f \<in> set (map name (resumes in_flight))) [resumeA] \<and>
   resumes (handleFileChange [resumeA] in_flight) = [resumeA] \<and>
   resumes (handleDrop [resumeA] in_flight) = [resumeA]"
proof -
  have h1: "distinct (map name (resumes init))" by (simp add: init_def)
  have h2: "list_all batch_distinct [Drop [resumeA, notes_txt], FileChange [resumeA, resumeB],
      ClickRemove ''resumeA.pdf'', Drop [resumeB, resumeA]]"
    by (simp add: valid_type_def sample_defs)
  have h3: "list_all (\<lambda>f. name f \<in> set (map name (resumes in_flight))) [resumeA]"
    by (simp add: in_flight_eq)
  have r: "resumes in_flight = [resumeA]"
    by (simp add: in_flight_eq)
  have v: "map name (resumes (run [Drop [resumeA, notes_txt], FileChange [resumeA, resumeB],
      ClickRemove ''resumeA.pdf'', Drop [resumeB, resumeA]] init)) =
     [''resumeB.docx'', ''resumeA.pdf'']"
    by (simp add: run_def init_def handleDrop_def handleFileChange_def removeFile_def
        valid_type_def Let_def sample_defs)
  show ?thesis
    using h1 h2 h3 r v
      add_files_unique_names [of init "[Drop [resumeA, notes_txt],
        FileChange [resumeA, resumeB], ClickRemove ''resumeA.pdf'',
        Drop [resumeB, resumeA]]" in_flight "[resumeA]"]
    by simp
qed

text \<open>
  Claim C2 as stated fails on \<open>part_000\<close>: dropping \<open>resumeA.pdf\<close> twice leaves two
  entries of that name in the collection.
\<close>

theorem add_files_unique_names_counterexample:
  "map name (resumes (run_p0 [Drop_p0 [resumeA], Drop_p0 [resumeA]] init_p0)) =
     [''resumeA.pdf'', ''resumeA.pdf'']"
  by (simp add: run_p0_def init_p0_def handleDrop_p0_def valid_type_def resumeA_def)

text \<open>
  Claim C7. The claim asks that a file whose MIME type is neither pdf nor docx is never
  added, by file-input selection or by drop. \<open>handleDrop\<close> filters on the type;
  \<open>handleFileChange\<close> does not look at it, in either variant, so a text file selected
  through the file input enters the collection, while the same file dropped does not.
\<close>

theorem handleFileChange_no_type_filter:
  "\<not> valid_type notes_txt \<and>
   resumes (handleFileChange [notes_txt] init) = [notes_txt] \<and>
   resumes (handleFileChange_p0 [notes_txt] init_p0) = [notes_txt] \<and>
   resumes (handleDrop [notes_txt] init) = [] \<and>
   resumes (handleDrop_p0 [notes_txt] init_p0) = []"
  by (simp add: handleFileChange_def handleFileChange_p0_def handleDrop_def handleDrop_p0_def
      valid_type_def init_def init_p0_def notes_txt_def Let_def)

section \<open>Validation\<close>

lemma trim_empty_iff: "trim d = [] \<longleftrightarrow> list_all is_ws d"
proof -
  have "trim d = [] \<longleftrightarrow> dropWhile is_ws (rev (dropWhile is_ws d)) = []"
    by (simp add: trim_def)
  also have "\<dots> \<longleftrightarrow> (\<forall>c \<in> set (dropWhile is_ws d). is_ws c)"
    by (simp add: dropWhile_eq_Nil_conv)
  also have "\<dots> \<longleftrightarrow> dropWhile is_ws d = []"
  proof
    assume all: "\<forall>c \<in> set (dropWhile is_ws d). is_ws c"
    show "dropWhile is_ws d = []"
    proof (cases "dropWhile is_ws d")
      case Nil
      then show ?thesis .
    next
      case (Cons c cs)
      then have "\<not> is_ws c" by (metis hd_dropWhile list.sel(1) list.distinct(1))
      moreover from Cons all have "is_ws c" by simp
      ultimately show ?thesis by simp
    qed
  next
    assume "dropWhile is_ws d = []"
    then show "\<forall>c \<in> set (dropWhile is_ws d). is_ws c"
      by (simp only: list.set ball_empty)
  qed
  also have "\<dots> \<longleftrightarrow> list_all is_ws d"
    by (simp add: dropWhile_eq_Nil_conv list_all_iff)
  finally show ?thesis .
qed

text \<open>
  Claim C6. With no file in the collection the submit fails with the no-resumes message,
  whatever the description is (so also when the description is blank: the file check
  comes first). With a file and a description that is empty or white space only it fails
  with the no-description message. Neither failure posts a request or enters the
  analyzing state. This holds for both variants.
\<close>

theorem handleAnalyze_validation:
  "(length (resumes s) = 0 \<longrightarrow>
      error (handleAnalyze s) = Some msg_no_resumes \<and>
      outbox (handleAnalyze s) = outbox s \<and> analyzing (handleAnalyze s) = analyzing s) \<and>
   (length (resumes t) \<noteq> 0 \<and> list_all is_ws (jobDescription t) \<longrightarrow>
      error (handleAnalyze t) = Some msg_no_job_description \<and>
      outbox (handleAnalyze t) = outbox t \<and> analyzing (handleAnalyze t) = analyzing t) \<and>
   (length (resumes s') = 0 \<longrightarrow>
      error (handleAnalyze_p0 s') = Some msg_no_resumes \<and>
      outbox (handleAnalyze_p0 s') = outbox s' \<and>
      analyzing (handleAnalyze_p0 s') = analyzing s') \<and>
   (length (resumes t') \<noteq> 0 \<and> list_all is_ws (jobDescription t') \<longrightarrow>
      error (handleAnalyze_p0 t') = Some msg_no_job_description \<and>
      outbox (handleAnalyze_p0 t') = outbox t' \<and>
      analyzing (handleAnalyze_p0 t') = analyzing t')"
  by (simp add: handleAnalyze_def handleAnalyze_p0_def Let_def trim_empty_iff)

text \<open>
  Claim C6, instances: no file and an empty description (both preconditions violated),
  and one file with a description of two spaces and a tab.
\<close>

theorem handleAnalyze_validation_witness:
  "length (resumes init) = 0 \<and> jobDescription init = [] \<and>
   error (handleAnalyze init) = Some ''Please upload at least one resume file.'' \<and>
   outbox (handleAnalyze init) = [] \<and>
   length (resumes (in_flight\<lparr>jobDescription := [CHR '' '', CHR '' '', CHR 0x09]\<rparr>)) \<noteq> 0 \<and>
   list_all is_ws (jobDescription (in_flight\<lparr>jobDescription := [CHR '' '', CHR '' '', CHR 0x09]\<rparr>)) \<and>
   error (handleAnalyze (in_flight\<lparr>jobDescription := [CHR '' '', CHR '' '', CHR 0x09]\<rparr>))
     = Some ''Please provide a job description.'' \<and>
   outbox (handleAnalyze (in_flight\<lparr>jobDescription := [CHR '' '', CHR '' '', CHR 0x09]\<rparr>))
     = outbox in_flight \<and>
   length (resumes init_p0) = 0 \<and>
   error (handleAnalyze_p0 init_p0) = Some ''Please upload at least one resume file.'' \<and>
   outbox (handleAnalyze_p0 init_p0) = [] \<and>
   length (resumes (in_flight_p0\<lparr>jobDescription := []\<rparr>)) \<noteq> 0 \<and>
   list_all is_ws (jobDescription (in_flight_p0\<lparr>jobDescription := []\<rparr>)) \<and>
   error (handleAnalyze_p0 (in_flight_p0\<lparr>jobDescription := []\<rparr>))
     = Some ''Please provide a job description.'' \<and>
   outbox (handleAnalyze_p0 (in_flight_p0\<lparr>jobDescription := []\<rparr>)) = outbox in_flight_p0"
proof -
  have h: "length (resumes init) = 0" "jobDescription init = []" "outbox init = []"
    "length (resumes init_p0) = 0" "outbox init_p0 = []"
    by (simp_all add: init_def init_p0_def)
  have k: "length (resumes (in_flight\<lparr>jobDescription := [CHR '' '', CHR '' '', CHR 0x09]\<rparr>)) \<noteq> 0"
    "list_all is_ws (jobDescription (in_flight\<lparr>jobDescription := [CHR '' '', CHR '' '', CHR 0x09]\<rparr>))"
    "length (resumes (in_flight_p0\<lparr>jobDescription := []\<rparr>)) \<noteq> 0"
    "list_all is_ws (jobDescription (in_flight_p0\<lparr>jobDescription := []\<rparr>))"
    by (simp_all add: in_flight_eq in_flight_p0_eq is_ws_def)
  show ?thesis
    using h k
      handleAnalyze_validation [of init
        "in_flight\<lparr>jobDescription := [CHR '' '', CHR '' '', CHR 0x09]\<rparr>"
        init_p0 "in_flight_p0\<lparr>jobDescription := []\<rparr>"]
    by (simp add: msg_no_resumes_def msg_no_job_description_def)
qed

section \<open>The request life cycle\<close>

text \<open>
  Three facts hold together in every state \<open>App.jsx\<close> can reach: the component is
  analyzing exactly when a request is outstanding, at most one request is outstanding,
  and while it is analyzing there are neither rows nor visibility records.
\<close>

lemma step_in_flight:
  assumes "analyzing s \<longleftrightarrow> outbox s \<noteq> []" and "length (outbox s) \<le> 1"
    and "analyzing s \<longrightarrow> results s = Rows [] \<and> visibleContent s = Map.empty"
  shows "(analyzing (step e s) \<longleftrightarrow> outbox (step e s) \<noteq> []) \<and>
         length (outbox (step e s)) \<le> 1 \<and>
         (analyzing (step e s) \<longrightarrow>
            results (step e s) = Rows [] \<and> visibleContent (step e s) = Map.empty)"
proof (cases e)
  case (Settle r)
  with assms show ?thesis
    by (cases "outbox s"; cases r)
      (simp_all add: handleAnalyze_settled_def Let_def split: body.splits)
next
  case ClickAnalyze
  with assms show ?thesis
    by (simp add: handleAnalyze_def Let_def)
qed (use assms in \<open>auto simp: handler_defs rows_of_def Let_def split: body.splits\<close>)

lemma run_in_flight:
  assumes "analyzing s \<longleftrightarrow> outbox s \<noteq> []" and "length (outbox s) \<le> 1"
    and "analyzing s \<longrightarrow> results s = Rows [] \<and> visibleContent s = Map.empty"
  shows "(analyzing (run es s) \<longleftrightarrow> outbox (run es s) \<noteq> []) \<and>
         length (outbox (run es s)) \<le> 1 \<and>
         (analyzing (run es s) \<longrightarrow>
            results (run es s) = Rows [] \<and> visibleContent (run es s) = Map.empty)"
  using assms
proof (induction es arbitrary: s)
  case Nil
  then show ?case by (simp add: run_def)
next
  case (Cons e es)
  have "run (e # es) s = run es (step e s)" by (simp add: run_def)
  moreover note step_in_flight [OF Cons.prems, of e]
  ultimately show ?case using Cons.IH [of "step e s"] by simp
qed

lemma step_p0_in_flight:
  assumes "analyzing s \<longleftrightarrow> outbox s \<noteq> []" and "length (outbox s) \<le> 1"
  shows "(analyzing (step_p0 e s) \<longleftrightarrow> outbox (step_p0 e s) \<noteq> []) \<and>
         length (outbox (step_p0 e s)) \<le> 1"
proof (cases e)
  case (Settle_p0 r)
  with assms show ?thesis
    by (cases "outbox s"; cases r)
      (simp_all add: handleAnalyze_settled_def Let_def split: body.splits)
next
  case ClickAnalyze_p0
  with assms show ?thesis
    by (simp add: handleAnalyze_p0_def Let_def)
qed (use assms in \<open>auto simp: handler_defs rows_of_def Let_def split: body.splits\<close>)

lemma run_p0_in_flight:
  assumes "analyzing s \<longleftrightarrow> outbox s \<noteq> []" and "length (outbox s) \<le> 1"
  shows "(analyzing (run_p0 es s) \<longleftrightarrow> outbox (run_p0 es s) \<noteq> []) \<and>
         length (outbox (run_p0 es s)) \<le> 1"
  using assms
proof (induction es arbitrary: s)
  case Nil
  then show ?case by (simp add: run_p0_def)
next
  case (Cons e es)
  have "run_p0 (e # es) s = run_p0 es (step_p0 e s)" by (simp add: run_p0_def)
  moreover note step_p0_in_flight [OF Cons.prems, of e]
  ultimately show ?case using Cons.IH [of "step_p0 e s"] by simp
qed

text \<open>
  Claim C5. \<open>handleAnalyze\<close> is reached only through the analyze button, which is
  disabled while \<open>analyzing\<close> holds. So a repeat click while a submission is in flight
  changes nothing, no second request included, and in every reachable state of either
  variant the number of outstanding requests is one while analyzing and zero otherwise.
\<close>

theorem repeat_submit_ignored:
  "(analyzing s \<longrightarrow> step ClickAnalyze s = s) \<and>
   (analyzing t \<longrightarrow> step_p0 ClickAnalyze_p0 t = t) \<and>
   length (outbox (run es init)) = (if analyzing (run es init) then 1 else 0) \<and>
   length (outbox (run_p0 es' init_p0)) = (if analyzing (run_p0 es' init_p0) then 1 else 0)"
proof -
  have a: "(analyzing (run es init) \<longleftrightarrow> outbox (run es init) \<noteq> []) \<and>
           length (outbox (run es init)) \<le> 1"
    using run_in_flight [of init es] by (simp add: init_def)
  have b: "(analyzing (run_p0 es' init_p0) \<longleftrightarrow> outbox (run_p0 es' init_p0) \<noteq> []) \<and>
           length (outbox (run_p0 es' init_p0)) \<le> 1"
    using run_p0_in_flight [of init_p0 es'] by (simp add: init_p0_def)
  from a have a': "length (outbox (run es init)) = (if analyzing (run es init) then 1 else 0)"
    by (cases "outbox (run es init)") auto
  from b have b': "length (outbox (run_p0 es' init_p0)) =
      (if analyzing (run_p0 es' init_p0) then 1 else 0)"
    by (cases "outbox (run_p0 es' init_p0)") auto
  from a' b' show ?thesis by simp
qed

text \<open>
  Claim C5, instances: in the sample states with a request outstanding a click on the
  analyze button leaves the state as it is, and two more clicks leave one request
  outstanding.
\<close>

theorem repeat_submit_ignored_witness:
  "analyzing in_flight \<and> step ClickAnalyze in_flight = in_flight \<and>
   analyzing in_flight_p0 \<and> step_p0 ClickAnalyze_p0 in_flight_p0 = in_flight_p0 \<and>
   length (outbox (run [Drop [resumeA], TypeDescription ''x'', ClickAnalyze, ClickAnalyze,
      ClickAnalyze] init)) = 1 \<and>
   length (outbox (run_p0 [Drop_p0 [resumeA], TypeDescription_p0 ''x'', ClickAnalyze_p0,
      ClickAnalyze_p0, ClickAnalyze_p0] init_p0)) = 1"
proof -
  have h: "analyzing in_flight" "analyzing in_flight_p0"
    by (simp_all add: in_flight_eq in_flight_p0_eq)
  have r: "run [Drop [resumeA], TypeDescription ''x'', ClickAnalyze, ClickAnalyze,
      ClickAnalyze] init = step ClickAnalyze (step ClickAnalyze in_flight)"
    by (simp add: in_flight_def run_def)
  have r': "run_p0 [Drop_p0 [resumeA], TypeDescription_p0 ''x'', ClickAnalyze_p0,
      ClickAnalyze_p0, ClickAnalyze_p0] init_p0 =
      step_p0 ClickAnalyze_p0 (step_p0 ClickAnalyze_p0 in_flight_p0)"
    by (simp add: in_flight_p0_def run_p0_def)
  have o: "length (outbox in_flight) = 1" "length (outbox in_flight_p0) = 1"
    by (simp_all add: in_flight_eq in_flight_p0_eq)
  from h o show ?thesis
    using repeat_submit_ignored [of in_flight in_flight_p0] by (simp add: r r')
qed

text \<open>
  Claim C3, as the code has it. In \<open>App.jsx\<close> a submit that passes validation empties
  the row list and the visibility records in the same step that issues the request; in
  every reachable state with a request in flight both are empty; the only event that
  changes the cell from the empty array is a request resolving, and the only event that
  makes the table show rows where it showed none is a request resolving with an array
  of rows. \<open>part_000\<close> does not reset them: its submit leaves row list and visibility
  records as they were.
\<close>

theorem submit_clears_results:
  "(length (resumes s) \<noteq> 0 \<and> trim (jobDescription s) \<noteq> [] \<longrightarrow>
      results (handleAnalyze s) = Rows [] \<and> visibleContent (handleAnalyze s) = Map.empty \<and>
      analyzing (handleAnalyze s) \<and> outbox (handleAnalyze s) = outbox s @ [formData_of s]) \<and>
   (analyzing (run es init) \<longrightarrow>
      results (run es init) = Rows [] \<and> visibleContent (run es init) = Map.empty) \<and>
   (results t = Rows [] \<and> results (step e t) \<noteq> Rows [] \<longrightarrow>
      (\<exists>data. e = Settle (Resolved data) \<and> results (step e t) = data)) \<and>
   (rows_of (results t') = [] \<and> rows_of (results (step e' t')) \<noteq> [] \<longrightarrow>
      (\<exists>rows. e' = Settle (Resolved (Rows rows)) \<and> results (step e' t') = Rows rows)) \<and>
   results (handleAnalyze_p0 u) = results u \<and>
   visibleContent (handleAnalyze_p0 u) = visibleContent u"
proof -
  have a: "length (resumes s) \<noteq> 0 \<and> trim (jobDescription s) \<noteq> [] \<longrightarrow>
      results (handleAnalyze s) = Rows [] \<and> visibleContent (handleAnalyze s) = Map.empty \<and>
      analyzing (handleAnalyze s) \<and> outbox (handleAnalyze s) = outbox s @ [formData_of s]"
    by (simp add: handleAnalyze_def Let_def formData_of_def)
  have b: "analyzing (run es init) \<longrightarrow>
      results (run es init) = Rows [] \<and> visibleContent (run es init) = Map.empty"
    using run_in_flight [of init es] by (simp add: init_def)
  have c: "results t = Rows [] \<and> results (step e t) \<noteq> Rows [] \<longrightarrow>
      (\<exists>data. e = Settle (Resolved data) \<and> results (step e t) = data)"
  proof (cases e)
    case (Settle r)
    then show ?thesis
      by (cases "outbox t"; cases r)
        (simp_all add: handleAnalyze_settled_def Let_def split: body.splits)
  qed (auto simp: handler_defs rows_of_def Let_def array_sort_def split: body.splits)
  have d: "rows_of (results t') = [] \<and> rows_of (results (step e' t')) \<noteq> [] \<longrightarrow>
      (\<exists>rows. e' = Settle (Resolved (Rows rows)) \<and> results (step e' t') = Rows rows)"
  proof (cases e')
    case (Settle r)
    then show ?thesis
      by (cases "outbox t'"; cases r)
        (simp_all add: handleAnalyze_settled_def rows_of_def Let_def split: body.splits)
  qed (auto simp: handler_defs rows_of_def Let_def split: body.splits)
  have f: "results (handleAnalyze_p0 u) = results u \<and>
      visibleContent (handleAnalyze_p0 u) = visibleContent u"
    by (simp add: handleAnalyze_p0_def Let_def)
  from a b c d f show ?thesis by blast
qed

text \<open>
  Claim C3, instances: a new submit on the sample state that shows the rows A and B
  empties rows and visibility records and posts the request; the sample run with a
  request in flight shows no rows; and the answer with row A fills the empty list.
\<close>

theorem submit_clears_results_witness:
  "length (resumes analysed) \<noteq> 0 \<and> trim (jobDescription analysed) \<noteq> [] \<and>
   results analysed = Rows [candidateA, candidateB] \<and>
   results (handleAnalyze analysed) = Rows [] \<and>
   visibleContent (handleAnalyze analysed) = Map.empty \<and>
   length (outbox (handleAnalyze analysed)) = 1 \<and>
   analyzing (run [Drop [resumeA], TypeDescription ''x'', ClickAnalyze] init) \<and>
   results (run [Drop [resumeA], TypeDescription ''x'', ClickAnalyze] init) = Rows [] \<and>
   results in_flight = Rows [] \<and> rows_of (results in_flight) = [] \<and>
   results (step (Settle (Resolved (Rows [candidateA]))) in_flight) = Rows [candidateA]"
proof -
  have h: "length (resumes analysed) \<noteq> 0" "trim (jobDescription analysed) \<noteq> []"
    "results analysed = Rows [candidateA, candidateB]" "outbox analysed = []"
    by (simp_all add: analysed_eq trim_def is_ws_def)
  have i: "run [Drop [resumeA], TypeDescription ''x'', ClickAnalyze] init = in_flight"
    by (simp add: in_flight_def)
  have k: "analyzing in_flight" "results in_flight = Rows []"
    "rows_of (results in_flight) = []"
    "results (step (Settle (Resolved (Rows [candidateA]))) in_flight) = Rows [candidateA]"
    by (simp_all add: in_flight_eq handleAnalyze_settled_def rows_of_def)
  from h k show ?thesis
    using submit_clears_results [of analysed "[Drop [resumeA], TypeDescription ''x'',
        ClickAnalyze]" in_flight "Settle (Resolved (Rows [candidateA]))" in_flight
        "Settle (Resolved (Rows [candidateA]))"]
    by (simp add: i)
qed

text \<open>
  Claim C3 as stated fails on \<open>part_000\<close>: a second submit on the sample state that
  shows the rows A and B puts a request in flight while both rows and their visibility
  records are still there.
\<close>

theorem submit_clears_results_counterexample:
  "results analysed_p0 = Rows [candidateA, candidateB] \<and>
   analyzing (step_p0 ClickAnalyze_p0 analysed_p0) \<and>
   length (outbox (step_p0 ClickAnalyze_p0 analysed_p0)) = 1 \<and>
   results (step_p0 ClickAnalyze_p0 analysed_p0) = Rows [candidateA, candidateB] \<and>
   visibleContent (step_p0 ClickAnalyze_p0 analysed_p0) (pain_points_key 0) = Some False"
  by (simp add: analysed_p0_eq handleAnalyze_p0_def trim_def is_ws_def Let_def
      pain_points_key_def decimal.simps)




section \<open>The experience field of the request\<close>

lemma member_experience_options: "v \<in> set experience_options \<longleftrightarrow> v \<le> 20"
  by (auto simp: experience_options_def)

lemma experience_parts_formData_of_p0:
  "experience_parts (formData_of_p0 t) = [TextPart (decimal (requiredExperience t))]"
  by (simp add: experience_parts_def formData_of_p0_def filter_map comp_def)

lemma experience_parts_formData_of: "experience_parts (formData_of s) = []"
  by (simp add: experience_parts_def formData_of_def filter_map comp_def)

lemma experience_in_range:
  "requiredExperience t \<le> 20 \<Longrightarrow>
   experience_parts (formData_of_p0 t)
     \<in> set (map (\<lambda>n. [TextPart (decimal n)]) experience_options)"
proof -
  assume "requiredExperience t \<le> 20"
  then have "requiredExperience t \<in> set experience_options"
    by (simp add: member_experience_options)
  then have "[TextPart (decimal (requiredExperience t))]
      \<in> (\<lambda>n. [TextPart (decimal n)]) ` set experience_options"
    by (rule imageI)
  then show ?thesis
    by (simp add: experience_parts_formData_of_p0)
qed

lemma step_p0_experience:
  assumes "requiredExperience s \<le> 20"
    and "list_all (\<lambda>fd. experience_parts fd
            \<in> set (map (\<lambda>n. [TextPart (decimal n)]) experience_options)) (outbox s)"
  shows "requiredExperience (step_p0 e s) \<le> 20 \<and>
         list_all (\<lambda>fd. experience_parts fd
            \<in> set (map (\<lambda>n. [TextPart (decimal n)]) experience_options))
           (outbox (step_p0 e s))"
proof (cases e)
  case (Settle_p0 r)
  with assms show ?thesis
    by (cases "outbox s"; cases r)
      (simp_all add: handleAnalyze_settled_def Let_def split: body.splits)
next
  case (SelectExperience_p0 v)
  with assms show ?thesis
    by (simp add: setRequiredExperience_def member_experience_options)
next
  case ClickAnalyze_p0
  from assms(1) have "experience_parts (formData_of_p0 (s\<lparr>analyzeClicked := True\<rparr>))
      \<in> set (map (\<lambda>n. [TextPart (decimal n)]) experience_options)"
    by (intro experience_in_range) simp
  with ClickAnalyze_p0 assms show ?thesis
    by (simp add: handleAnalyze_p0_def Let_def)
qed (use assms in \<open>auto simp: handleFileChange_p0_def handleDragOver_def handleDragLeave_def
      handleDrop_p0_def toggleContent_p0_def Let_def\<close>)

lemma run_p0_experience:
  assumes "requiredExperience s \<le> 20"
    and "list_all (\<lambda>fd. experience_parts fd
            \<in> set (map (\<lambda>n. [TextPart (decimal n)]) experience_options)) (outbox s)"
  shows "requiredExperience (run_p0 es s) \<le> 20 \<and>
         list_all (\<lambda>fd. experience_parts fd
            \<in> set (map (\<lambda>n. [TextPart (decimal n)]) experience_options))
           (outbox (run_p0 es s))"
  using assms
proof (induction es arbitrary: s)
  case Nil
  then show ?case by (simp add: run_p0_def)
next
  case (Cons e es)
  have "run_p0 (e # es) s = run_p0 es (step_p0 e s)" by (simp add: run_p0_def)
  moreover note step_p0_experience [OF Cons.prems, of e]
  ultimately show ?case using Cons.IH [of "step_p0 e s"] by simp
qed

lemma step_no_experience:
  assumes "list_all (\<lambda>fd. experience_parts fd = []) (outbox s)"
  shows "list_all (\<lambda>fd. experience_parts fd = []) (outbox (step e s))"
proof (cases e)
  case (Settle r)
  with assms show ?thesis
    by (cases "outbox s"; cases r)
      (simp_all add: handleAnalyze_settled_def Let_def split: body.splits)
next
  case ClickAnalyze
  with assms show ?thesis
    by (simp add: handleAnalyze_def Let_def experience_parts_formData_of)
qed (use assms in \<open>auto simp: handler_defs Let_def split: body.splits\<close>)

lemma run_no_experience:
  assumes "list_all (\<lambda>fd. experience_parts fd = []) (outbox s)"
  shows "list_all (\<lambda>fd. experience_parts fd = []) (outbox (run es s))"
  using assms
proof (induction es arbitrary: s)
  case Nil
  then show ?case by (simp add: run_def)
next
  case (Cons e es)
  have "run (e # es) s = run es (step e s)" by (simp add: run_def)
  moreover note step_no_experience [OF Cons.prems, of e]
  ultimately show ?case using Cons.IH [of "step e s"] by simp
qed

lemma decimal_experience_options:
  "map decimal experience_options =
     map (\<lambda>c. [c]) ''0123456789'' @ map (\<lambda>c. [CHR ''1'', c]) ''0123456789'' @ [''20'']"
  by code_simp

text \<open>
  Claim C9. In \<open>part_000\<close> the experience value is 0 at the start and at most 20 in
  every reachable state. A submit that passes validation posts exactly the body built
  from the state, and that body carries exactly one \<open>required_experience\<close> part, the
  decimal digits of the value; so every request a run of the component has posted and
  not yet seen answered carries exactly one such part, the digits of one of the
  selector's 21 values: the ten digits, the ten digits after a \<open>1\<close>, and \<open>20\<close>. In \<open>App.jsx\<close> a submit that passes
  validation posts exactly the body built from the state, which carries no such part,
  and no outstanding request of any run carries one.
\<close>

theorem required_experience_field:
  "requiredExperience init_p0 = 0 \<and>
   requiredExperience (run_p0 es init_p0) \<le> 20 \<and>
   experience_parts (formData_of_p0 (run_p0 es init_p0)) =
     [TextPart (decimal (requiredExperience (run_p0 es init_p0)))] \<and>
   experience_parts (formData_of s) = [] \<and>
   (length (resumes t) \<noteq> 0 \<and> trim (jobDescription t) \<noteq> [] \<longrightarrow>
      outbox (handleAnalyze_p0 t) = outbox t @ [formData_of_p0 t]) \<and>
   experience_parts (formData_of_p0 t) = [TextPart (decimal (requiredExperience t))] \<and>
   list_all (\<lambda>fd. experience_parts fd
       \<in> set (map (\<lambda>n. [TextPart (decimal n)]) experience_options))
     (outbox (run_p0 es init_p0)) \<and>
   map decimal experience_options =
     map (\<lambda>c. [c]) ''0123456789'' @ map (\<lambda>c. [CHR ''1'', c]) ''0123456789'' @ [''20''] \<and>
   (length (resumes s) \<noteq> 0 \<and> trim (jobDescription s) \<noteq> [] \<longrightarrow>
      outbox (handleAnalyze s) = outbox s @ [formData_of s]) \<and>
   list_all (\<lambda>fd. experience_parts fd = []) (outbox (run es' init))"
proof -
  have a: "requiredExperience (run_p0 es init_p0) \<le> 20 \<and>
     list_all (\<lambda>fd. experience_parts fd
         \<in> set (map (\<lambda>n. [TextPart (decimal n)]) experience_options))
       (outbox (run_p0 es init_p0))"
    by (rule run_p0_experience) (simp_all add: init_p0_def)
  have b: "list_all (\<lambda>fd. experience_parts fd = []) (outbox (run es' init))"
    by (rule run_no_experience) (simp add: init_def)
  have c: "length (resumes t) \<noteq> 0 \<and> trim (jobDescription t) \<noteq> [] \<longrightarrow>
      outbox (handleAnalyze_p0 t) = outbox t @ [formData_of_p0 t]"
    by (simp add: handleAnalyze_p0_def formData_of_p0_def Let_def)
  have d: "length (resumes s) \<noteq> 0 \<and> trim (jobDescription s) \<noteq> [] \<longrightarrow>
      outbox (handleAnalyze s) = outbox s @ [formData_of s]"
    by (simp add: handleAnalyze_def formData_of_def Let_def)
  have e: "requiredExperience init_p0 = 0" by (simp add: init_p0_def)
  from a b c d e show ?thesis
    by (simp only: experience_parts_formData_of_p0 experience_parts_formData_of
        decimal_experience_options simp_thms)
qed

text \<open>
  Claim C9, instances. In \<open>part_000\<close>, with a file and a description in place: the
  request posted with the selector untouched carries \<open>0\<close>; after choosing 20, and then
  trying a value the selector does not offer, the request posted carries \<open>20\<close>. The
  request \<open>App.jsx\<close> posts from its sample state carries no experience part.
\<close>

theorem required_experience_field_witness:
  "map experience_parts (outbox in_flight_p0) = [[TextPart ''0'']] \<and>
   length (resumes chosen_p0) \<noteq> 0 \<and> trim (jobDescription chosen_p0) \<noteq> [] \<and>
   requiredExperience chosen_p0 = 20 \<and>
   map experience_parts (outbox (handleAnalyze_p0 chosen_p0)) = [[TextPart ''20'']] \<and>
   length (resumes analysed) \<noteq> 0 \<and> trim (jobDescription analysed) \<noteq> [] \<and>
   map experience_parts (outbox (handleAnalyze analysed)) = [[]]"
proof -
  have c: "chosen_p0 = in_flight_p0\<lparr>analyzing := False, analyzeClicked := False,
      outbox := [], requiredExperience := 20\<rparr>"
    by (simp add: chosen_p0_def in_flight_p0_eq run_p0_def init_p0_def handleDrop_p0_def
        setRequiredExperience_def experience_options_def valid_type_def Let_def resumeA_def)
  have h: "length (resumes chosen_p0) \<noteq> 0" "trim (jobDescription chosen_p0) \<noteq> []"
    "requiredExperience chosen_p0 = 20" "outbox chosen_p0 = []"
    by (simp_all add: c in_flight_p0_eq trim_def is_ws_def)
  have k: "length (resumes analysed) \<noteq> 0" "trim (jobDescription analysed) \<noteq> []"
    "outbox analysed = []"
    by (simp_all add: analysed_eq trim_def is_ws_def)
  have i: "map experience_parts (outbox in_flight_p0) = [[TextPart ''0'']]"
    by (simp add: in_flight_p0_eq experience_parts_def)
  have d: "decimal 20 = ''20''" by (simp add: decimal.simps)
  from h k i show ?thesis
    using required_experience_field [where t = chosen_p0 and s = analysed]
    by (simp add: d)
qed

section \<open>Sorting the rows\<close>

lemma mset_insert_by: "mset (insert_by c x xs) = add_mset x (mset xs)"
  by (induction xs) auto

lemma mset_array_sort: "mset (array_sort c xs) = mset xs"
  by (induction xs) (auto simp: array_sort_def mset_insert_by)

lemma set_insert_by: "set (insert_by c x xs) = insert x (set xs)"
  by (induction xs) auto

lemma sorted_insert_by_score:
  "sorted_wrt (\<lambda>a b. score b \<le> score a) xs \<Longrightarrow>
   sorted_wrt (\<lambda>a b. score b \<le> score a) (insert_by (\<lambda>a b. score b - score a) x xs)"
  by (induction xs) (auto simp: set_insert_by)

lemma sorted_array_sort_score:
  "sorted_wrt (\<lambda>a b. score b \<le> score a) (array_sort (\<lambda>a b. score b - score a) xs)"
  by (induction xs) (auto simp: array_sort_def sorted_insert_by_score)

lemma filter_insert_by_score:
  "filter (\<lambda>r. score r = k) (insert_by (\<lambda>a b. score b - score a) x xs) =
   filter (\<lambda>r. score r = k) (x # xs)"
  by (induction xs) auto

lemma filter_array_sort_score:
  "filter (\<lambda>r. score r = k) (array_sort (\<lambda>a b. score b - score a) xs) =
   filter (\<lambda>r. score r = k) xs"
  by (induction xs) (auto simp: array_sort_def filter_insert_by_score)

lemma array_sort_sorted_id:
  "sorted_wrt (\<lambda>a b. score b \<le> score a) xs \<Longrightarrow>
   array_sort (\<lambda>a b. score b - score a) xs = xs"
proof (induction xs)
  case Nil
  show ?case by (simp add: array_sort_def)
next
  case (Cons x xs)
  then have rest: "array_sort (\<lambda>a b. score b - score a) xs = xs" by simp
  from Cons.prems have "insert_by (\<lambda>a b. score b - score a) x xs = x # xs"
    by (cases xs) auto
  with rest show ?case by (simp add: array_sort_def)
qed

lemma results_sortByScore:
  "results s = Rows xs \<Longrightarrow>
   results (sortByScore s) = Rows (array_sort (\<lambda>a b. score b - score a) xs)"
  by (simp add: sortByScore_def Let_def)

text \<open>
  Claim C8. On a cell that holds the rows \<open>xs\<close>, \<open>sortByScore\<close> leaves an array of rows
  in descending order of score; they are the rows from before, the rows of any one score
  stand in the order they had before, and a second \<open>sortByScore\<close> returns the same
  sequence of rows as the first.
\<close>

theorem sortByScore_sorted_stable_idempotent:
  "results s = Rows xs \<Longrightarrow>
   \<exists>ys. results (sortByScore s) = Rows ys \<and>
        sorted_wrt (\<lambda>a b. score b \<le> score a) ys \<and>
        mset ys = mset xs \<and>
        (\<forall>k. filter (\<lambda>r. score r = k) ys = filter (\<lambda>r. score r = k) xs) \<and>
        results (sortByScore (sortByScore s)) = Rows ys"
proof -
  assume cell: "results s = Rows xs"
  let ?ys = "array_sort (\<lambda>a b. score b - score a) xs"
  have once: "results (sortByScore s) = Rows ?ys"
    using cell by (rule results_sortByScore)
  then have "results (sortByScore (sortByScore s)) =
      Rows (array_sort (\<lambda>a b. score b - score a) ?ys)"
    by (rule results_sortByScore)
  then have twice: "results (sortByScore (sortByScore s)) = Rows ?ys"
    by (simp add: array_sort_sorted_id sorted_array_sort_score)
  from once twice show ?thesis
    by (simp add: sorted_array_sort_score mset_array_sort filter_array_sort_score)
qed

text \<open>
  Claim C8, an instance: the rows A (65), B (90), C (65) come out as B, A, C, with A
  still before C, and sorting again changes nothing.
\<close>

theorem sortByScore_sorted_stable_idempotent_witness:
  "results (analysed\<lparr>results := Rows [candidateA, candidateB, candidateC]\<rparr>)
     = Rows [candidateA, candidateB, candidateC] \<and>
   results (sortByScore (analysed\<lparr>results := Rows [candidateA, candidateB, candidateC]\<rparr>))
     = Rows [candidateB, candidateA, candidateC] \<and>
   results (sortByScore (sortByScore
       (analysed\<lparr>results := Rows [candidateA, candidateB, candidateC]\<rparr>)))
     = Rows [candidateB, candidateA, candidateC]"
proof -
  have h: "results (analysed\<lparr>results := Rows [candidateA, candidateB, candidateC]\<rparr>)
     = Rows [candidateA, candidateB, candidateC]"
    by simp
  have a: "results (sortByScore (analysed\<lparr>results := Rows [candidateA, candidateB, candidateC]\<rparr>))
     = Rows [candidateB, candidateA, candidateC]"
    by (simp add: results_sortByScore array_sort_def candidateA_def candidateB_def
        candidateC_def)
  from sortByScore_sorted_stable_idempotent [OF h] a h show ?thesis
    by auto
qed

text \<open>
  Claim C1. The claim asks that a visibility flag set for candidate A is still A's flag
  after the sort. \<open>sortByScore\<close> copies every key \<open>pain-points-i\<close> and \<open>summary-i\<close> to
  the same index \<open>i\<close>, so the flag stays with the slot. On the sample state with the
  rows A (65), B (90): the pain points of A (row 0) are opened; after the sort B stands
  in row 0 and A in row 1, and the open flag is that of row 0, now B, while A's row
  reads closed.
\<close>

theorem sortByScore_flags_stay_on_slots:
  "results analysed = Rows [candidateA, candidateB] \<and>
   visibleContent (step (ClickPainPoints 0) analysed) (pain_points_key 0) = Some True \<and>
   visibleContent (step (ClickPainPoints 0) analysed) (pain_points_key 1) = Some False \<and>
   results (step ClickSort (step (ClickPainPoints 0) analysed))
     = Rows [candidateB, candidateA] \<and>
   visibleContent (step ClickSort (step (ClickPainPoints 0) analysed)) (pain_points_key 0)
     = Some True \<and>
   visibleContent (step ClickSort (step (ClickPainPoints 0) analysed)) (pain_points_key 1)
     = Some False"
  by (simp add: analysed_eq toggleContent_def sortByScore_def array_sort_def truthy_def
      or_else_def rows_of_def Let_def pain_points_key_def summary_key_def decimal.simps
      candidateA_def candidateB_def upt_rec [of 0 2] upt_rec [of 1 2])

section \<open>Frame of the visibility toggle\<close>

text \<open>
  Claim C10. \<open>toggleContent(id)\<close> writes one key of the visibility object: every key
  other than \<open>id\<close> reads after the toggle what it read before, in both variants.
\<close>

theorem toggleContent_frame:
  "k \<noteq> ident \<Longrightarrow>
     visibleContent (toggleContent ident s) k = visibleContent s k \<and>
     visibleContent (toggleContent_p0 ident t) k = visibleContent t k"
  by (simp add: toggleContent_def toggleContent_p0_def)

text \<open>
  Claim C10, an instance: the summary flag of row 0, opened before, is still open after
  the pain-points flag of row 0 is toggled.
\<close>

theorem toggleContent_frame_witness:
  "summary_key 0 \<noteq> pain_points_key 0 \<and>
   visibleContent (toggleContent (pain_points_key 0) (toggleContent (summary_key 0) init))
     (summary_key 0) = Some True \<and>
   visibleContent (toggleContent_p0 (pain_points_key 0)
     (toggleContent_p0 (summary_key 0) init_p0)) (summary_key 0) = Some True"
proof -
  have ne: "summary_key 0 \<noteq> pain_points_key 0"
    by (simp add: summary_key_def pain_points_key_def)
  show ?thesis
    using ne toggleContent_frame [OF ne, of "toggleContent (summary_key 0) init"
        "toggleContent_p0 (summary_key 0) init_p0"]
    by (simp add: toggleContent_def toggleContent_p0_def init_def init_p0_def
        truthy_def or_else_def)
qed

end
